theory Spec2Isabelle
  imports Complex_Main
begin

section \<open>Python text primitives used by the scraper\<close>

text \<open>
  Text is a \<^typ>\<open>string\<close>; every \<^typ>\<open>char\<close> stands for one code point below 256
  (the Latin-1 range of Python's \<open>str\<close>). The character classes below are those of
  CPython's Unicode database restricted to that range.
\<close>

definition py_isspace :: "char \<Rightarrow> bool" where
  \<comment> \<open>\<open>str.isspace\<close>, the set removed by \<open>str.strip()\<close> and used by \<open>str.split()\<close>\<close>
  "py_isspace c =
     (let n = (of_char c :: nat)
      in (9 \<le> n \<and> n \<le> 13) \<or> (28 \<le> n \<and> n \<le> 32) \<or> n = 133 \<or> n = 160)"

definition is_ascii_digit :: "char \<Rightarrow> bool" where
  "is_ascii_digit c = (let n = (of_char c :: nat) in 48 \<le> n \<and> n \<le> 57)"

definition py_isdigit :: "char \<Rightarrow> bool" where
  \<comment> \<open>\<open>str.isdigit\<close>: the decimal digits and the superscripts 2, 3 and 1\<close>
  "py_isdigit c =
     (let n = (of_char c :: nat)
      in (48 \<le> n \<and> n \<le> 57) \<or> n = 178 \<or> n = 179 \<or> n = 185)"

definition py_strip :: "string \<Rightarrow> string" where
  \<comment> \<open>\<open>s.strip()\<close>\<close>
  "py_strip s = rev (dropWhile py_isspace (rev (dropWhile py_isspace s)))"

fun split_acc :: "string \<Rightarrow> string \<Rightarrow> string list" where
  \<comment> \<open>the first argument is the current word, reversed\<close>
  "split_acc cur [] = (if cur = [] then [] else [rev cur])"
| "split_acc cur (c # cs) =
     (if py_isspace c
      then (if cur = [] then split_acc [] cs else rev cur # split_acc [] cs)
      else split_acc (c # cur) cs)"

definition py_split :: "string \<Rightarrow> string list" where
  \<comment> \<open>\<open>s.split()\<close>: the maximal runs of non-whitespace characters\<close>
  "py_split s = split_acc [] s"

definition digit_val :: "char \<Rightarrow> nat" where
  "digit_val c = of_char c - 48"

definition nat_of_digits :: "string \<Rightarrow> nat" where
  "nat_of_digits ds = foldl (\<lambda>a c. 10 * a + digit_val c) 0 ds"

definition lower_char :: "char \<Rightarrow> char" where
  "lower_char c =
     (let n = (of_char c :: nat) in if 65 \<le> n \<and> n \<le> 90 then char_of (n + 32) else c)"

subsection \<open>\<open>int(s)\<close> on the digit strings the scraper builds\<close>

definition int_max_str_digits :: nat where
  \<comment> \<open>CPython's default limit on the length of a decimal string (3.11)\<close>
  "int_max_str_digits = 4300"

definition py_int_digits :: "string \<Rightarrow> int option" where
  \<comment> \<open>\<open>int(s)\<close> for \<open>s\<close> made of \<open>str.isdigit\<close> characters only; \<open>None\<close> is ValueError\<close>
  "py_int_digits s =
     (if s = [] then None
      else if \<not> list_all is_ascii_digit s then None
      else if length s > int_max_str_digits then None
      else Some (int (nat_of_digits s)))"

subsection \<open>\<open>float(s)\<close>\<close>

text \<open>
  A Python float is a finite number, an infinity or a NaN. Finite values are kept as
  exact rationals: the rounding of a decimal literal to binary64 is outside this model.
\<close>

datatype pyfloat = Fin rat | PosInf | NegInf | NaN

fun underscores_ok :: "char \<Rightarrow> string \<Rightarrow> bool" where
  \<comment> \<open>an underscore only between two digits; the first argument is the previous character\<close>
  "underscores_ok prev [] = (prev \<noteq> CHR ''_'')"
| "underscores_ok prev (c # cs) =
     (if c = CHR ''_'' then is_ascii_digit prev \<and> underscores_ok c cs
      else (prev \<noteq> CHR ''_'' \<or> is_ascii_digit c) \<and> underscores_ok c cs)"

definition parse_exponent :: "string \<Rightarrow> int option" where
  \<comment> \<open>what follows the mantissa: nothing, or \<open>e\<close>, an optional sign and digits\<close>
  "parse_exponent r =
     (case r of
        [] \<Rightarrow> Some 0
      | c # r1 \<Rightarrow>
          if c = CHR ''e'' \<or> c = CHR ''E'' then
            (let neg = (case r1 of [] \<Rightarrow> False | d # _ \<Rightarrow> d = CHR ''-'');
                 r2 = (case r1 of [] \<Rightarrow> []
                       | d # ds \<Rightarrow> if d = CHR ''-'' \<or> d = CHR ''+'' then ds else r1)
             in if r2 = [] \<or> \<not> list_all is_ascii_digit r2 then None
                else Some (if neg then - int (nat_of_digits r2) else int (nat_of_digits r2)))
          else None)"

definition parse_decimal :: "string \<Rightarrow> rat option" where
  \<comment> \<open>digits, an optional point and digits, an optional exponent; at least one digit\<close>
  "parse_decimal t =
     (let ip = takeWhile is_ascii_digit t;
          r1 = dropWhile is_ascii_digit t;
          has_point = (case r1 of [] \<Rightarrow> False | c # _ \<Rightarrow> c = CHR ''.'');
          fp = (if has_point then takeWhile is_ascii_digit (tl r1) else []);
          r2 = (if has_point then dropWhile is_ascii_digit (tl r1) else r1)
      in if ip = [] \<and> fp = [] then None
         else (case parse_exponent r2 of
                 None \<Rightarrow> None
               | Some e \<Rightarrow>
                   (let m = of_nat (nat_of_digits (ip @ fp)); k = e - int (length fp)
                    in Some (if k \<ge> 0 then m * 10 ^ nat k else m / 10 ^ nat (- k)))))"

definition py_float :: "string \<Rightarrow> pyfloat option" where
  \<comment> \<open>\<open>float(s)\<close> for a string; \<open>None\<close> is ValueError\<close>
  "py_float s =
     (let t = py_strip s
      in if \<not> underscores_ok (CHR 0x00) t then None
         else
           (let u = filter (\<lambda>c. c \<noteq> CHR ''_'') t;
                neg = (case u of [] \<Rightarrow> False | c # _ \<Rightarrow> c = CHR ''-'');
                v = (case u of [] \<Rightarrow> []
                     | c # cs \<Rightarrow> if c = CHR ''-'' \<or> c = CHR ''+'' then cs else u);
                w = map lower_char v
            in if w = ''inf'' \<or> w = ''infinity'' then Some (if neg then NegInf else PosInf)
               else if w = ''nan'' then Some NaN
               else (case parse_decimal v of
                       None \<Rightarrow> None
                     | Some q \<Rightarrow> Some (Fin (if neg then - q else q)))))"

section \<open>Document nodes\<close>

text \<open>
  The HTML parser and its CSS engine are external. A node carries what the scraper reads
  from it: its text fragments in document order, its attributes, its serialisation
  (\<open>str(node)\<close>) and, for every selector, the descendants that the selector matches, in
  document order.
\<close>

datatype node =
  Node (strings: "string list") (attrs: "(string \<times> string) list") (html: string)
       (matches: "(string \<times> node list) list")

definition get_text_strip :: "node \<Rightarrow> string" where
  \<comment> \<open>\<open>node.get_text(strip=True)\<close>: every fragment stripped, the empty ones dropped, joined\<close>
  "get_text_strip n = concat (filter (\<lambda>s. s \<noteq> []) (map py_strip (strings n)))"

definition node_get :: "node \<Rightarrow> string \<Rightarrow> string option" where
  \<comment> \<open>\<open>node.get(attr)\<close>\<close>
  "node_get n a = map_of (attrs n) a"

definition node_get_default :: "node \<Rightarrow> string \<Rightarrow> string \<Rightarrow> string" where
  \<comment> \<open>\<open>node.get(attr, default)\<close>\<close>
  "node_get_default n a d = (case map_of (attrs n) a of None \<Rightarrow> d | Some v \<Rightarrow> v)"

definition select :: "node \<Rightarrow> string \<Rightarrow> node list" where
  \<comment> \<open>\<open>node.select(selector)\<close>\<close>
  "select n q = (case map_of (matches n) q of None \<Rightarrow> [] | Some ns \<Rightarrow> ns)"

definition select_one :: "node \<Rightarrow> string \<Rightarrow> node option" where
  \<comment> \<open>\<open>node.select_one(selector)\<close>\<close>
  "select_one n q = (case select n q of [] \<Rightarrow> None | x # _ \<Rightarrow> Some x)"

section \<open>Errors and raw data\<close>

text \<open>
  Every exception that can leave the extraction code is a value:
  \<^item> \<open>RequiredFieldMissing f\<close> is \<open>ValueError("Required field 'f' is missing")\<close>;
  \<^item> \<open>RequiredImageMissing f\<close> is \<open>ValueError("Required image field 'f' is missing")\<close>;
  \<^item> \<open>RatingRequired\<close> is \<open>ValueError("Rating is required")\<close>;
  \<^item> \<open>MapRequired\<close> is \<open>ValueError("Map element is required")\<close>;
  \<^item> \<open>CouldNotConvert s\<close> is the \<open>ValueError\<close> of \<open>float(s)\<close> on a string that is no number;
  \<^item> \<open>AttributeError\<close> is the error of calling a method that the value does not have
    (a method of \<open>None\<close>, a node method of a string, \<open>strip\<close> of a list);
  \<^item> \<open>ValidationError fs\<close> is the error of a pydantic model, with the names of the
    fields that failed, in the order of their declaration.
\<close>

datatype error =
    RequiredFieldMissing string
  | RequiredImageMissing string
  | RatingRequired
  | MapRequired
  | CouldNotConvert string
  | AttributeError
  | ValidationError "string list"

text \<open>
  The raw data handed over by the base strategy is a dictionary from field names to
  values; the code reads a value either as a string or as a list of nodes.
\<close>

datatype raw = RStr string | RNodes "node list"

type_synonym raw_data = "string \<Rightarrow> raw option"

definition truthy :: "raw option \<Rightarrow> bool" where
  \<comment> \<open>\<open>bool(data.get(field))\<close>\<close>
  "truthy v = (case v of None \<Rightarrow> False | Some (RStr s) \<Rightarrow> s \<noteq> [] | Some (RNodes ns) \<Rightarrow> ns \<noteq> [])"

definition bind_res :: "error + 'a \<Rightarrow> ('a \<Rightarrow> error + 'b) \<Rightarrow> error + 'b" where
  \<comment> \<open>sequencing: the first exception ends the computation\<close>
  "bind_res r f = (case r of Inl e \<Rightarrow> Inl e | Inr x \<Rightarrow> f x)"

definition first_node :: "raw \<Rightarrow> error + node option" where
  \<comment> \<open>the element a node method is called on in \<open>v[0].method(...)\<close> and in
      \<open>for x in v: x.method(...)\<close>: a character of a string has no node method\<close>
  "first_node v =
     (case v of
        RNodes [] \<Rightarrow> Inr None
      | RNodes (n # _) \<Rightarrow> Inr (Some n)
      | RStr [] \<Rightarrow> Inr None
      | RStr (_ # _) \<Rightarrow> Inl AttributeError)"

definition nodes_of :: "raw \<Rightarrow> error + node list" where
  \<comment> \<open>the nodes a loop \<open>for x in v: x.method(...)\<close> visits\<close>
  "nodes_of v =
     (case v of
        RNodes ns \<Rightarrow> Inr ns
      | RStr [] \<Rightarrow> Inr []
      | RStr (_ # _) \<Rightarrow> Inl AttributeError)"

section \<open>The models of \<open>models.py\<close>\<close>

record ProductItem =
  item_name :: string
  item_price :: "pyfloat option"
  item_description :: "string option"
  item_category :: "string list option"
  item_image :: "string option"

definition ProductItem_validate :: "ProductItem \<Rightarrow> error + ProductItem" where
  \<comment> \<open>the constructor \<open>ProductItem(...)\<close> with its validator \<open>name_must_not_be_empty\<close>\<close>
  "ProductItem_validate p =
     (if py_strip (item_name p) = [] then Inl (ValidationError [''name''])
      else Inr (p\<lparr>item_name := py_strip (item_name p)\<rparr>))"

record Coordinates =
  lat :: "pyfloat option"
  lng :: "pyfloat option"

record MapLocation =
  element :: string
  coordinates :: "Coordinates option"

record Images =
  main :: "string option"
  gallery :: "string list"

record Products =
  categories :: "string list option"
  items :: "ProductItem list option"

record Contact =
  website :: "string option"
  line :: "string option"

record Location =
  area :: "string option"
  map_loc :: "MapLocation option"

record Metadata =
  missing_optional_fields :: "string list"
  validation_errors :: "string list"

record ShopData =
  name :: string
  description :: string
  rating :: pyfloat
  reviews_count :: "int option"
  verified :: "bool option"
  delivery_service :: "bool option"
  special_offers :: "string list option"
  images :: Images
  products :: Products
  contact :: "Contact option"
  location :: Location
  metadata :: Metadata

definition float_ge :: "pyfloat \<Rightarrow> rat \<Rightarrow> bool" where
  \<comment> \<open>\<open>v >= b\<close> on floats: false for a NaN\<close>
  "float_ge v b = (case v of Fin q \<Rightarrow> q \<ge> b | PosInf \<Rightarrow> True | NegInf \<Rightarrow> False | NaN \<Rightarrow> False)"

definition float_le :: "pyfloat \<Rightarrow> rat \<Rightarrow> bool" where
  \<comment> \<open>\<open>v <= b\<close> on floats: false for a NaN\<close>
  "float_le v b = (case v of Fin q \<Rightarrow> q \<le> b | PosInf \<Rightarrow> False | NegInf \<Rightarrow> True | NaN \<Rightarrow> False)"

definition rating_ok :: "pyfloat \<Rightarrow> bool" where
  \<comment> \<open>\<open>Field(..., ge=0, le=5)\<close>\<close>
  "rating_ok v = (float_ge v 0 \<and> float_le v 5)"

definition reviews_count_ok :: "int option \<Rightarrow> bool" where
  \<comment> \<open>\<open>Field(None, ge=0)\<close>\<close>
  "reviews_count_ok v = (case v of None \<Rightarrow> True | Some n \<Rightarrow> n \<ge> 0)"

definition validate_images :: "Images \<Rightarrow> bool" where
  \<comment> \<open>passes unless \<open>not v.get('main')\<close>\<close>
  "validate_images v = (case main v of None \<Rightarrow> False | Some m \<Rightarrow> m \<noteq> [])"

definition validate_products :: "Products \<Rightarrow> bool" where
  \<comment> \<open>passes unless \<open>not v.get('categories')\<close> or \<open>not v.get('items')\<close>\<close>
  "validate_products v =
     ((case categories v of None \<Rightarrow> False | Some cs \<Rightarrow> cs \<noteq> []) \<and>
      (case items v of None \<Rightarrow> False | Some is \<Rightarrow> is \<noteq> []))"

definition validate_location :: "Location \<Rightarrow> bool" where
  \<comment> \<open>passes unless \<open>not v.get('area')\<close> or \<open>not v.get('map')\<close>; a map location is a
      dictionary with two keys, hence true when present\<close>
  "validate_location v =
     ((case area v of None \<Rightarrow> False | Some a \<Rightarrow> a \<noteq> []) \<and>
      (case map_loc v of None \<Rightarrow> False | Some m \<Rightarrow> True))"

definition ShopData_violations :: "ShopData \<Rightarrow> string list" where
  \<comment> \<open>the fields whose constraint or validator fails, in declaration order\<close>
  "ShopData_violations s =
     (if rating_ok (rating s) then [] else [''rating'']) @
     (if reviews_count_ok (reviews_count s) then [] else [''reviews_count'']) @
     (if validate_images (images s) then [] else [''images'']) @
     (if validate_products (products s) then [] else [''products'']) @
     (if validate_location (location s) then [] else [''location''])"

definition ShopData_validate :: "ShopData \<Rightarrow> error + ShopData" where
  \<comment> \<open>the constructor \<open>ShopData(...)\<close>: the record itself, or every failed field\<close>
  "ShopData_validate s =
     (if ShopData_violations s = [] then Inr s else Inl (ValidationError (ShopData_violations s)))"

section \<open>The extraction strategy of \<open>extraction.py\<close>\<close>

definition selectors :: "(string \<times> string) list" where
  "selectors =
     [(''name'', ''h1''),
      (''description'', ''div[style*='white-space:pre-wrap']''),
      (''rating'', ''div[style*='text-align:center'] img[alt='rating']''),
      (''reviews.count'', ''div[style*='text-align:center'] div[style*='font-size:22px']''),
      (''verified'', ''div[style*='color: rgb(74, 153, 233)']''),
      (''status.delivery'', ''div[style*='color: rgb(74, 153, 233)']''),
      (''special_offers'', ''div._Dispensary_medcardHeader___L6AM''),
      (''images.main'', ''div.FeaturedImage_featuredImage__GA2Cw img[alt*='og.th']''),
      (''images.gallery'', ''div.FeaturedImage_featuredImage__GA2Cw img[loading='eager']''),
      (''products.categories'', ''h2.ShopProductAll_productsHeader__10hBt''),
      (''products.items'', ''div.ShopProductAll_product__Cc_k7''),
      (''products.item.name'', ''div.ShopProductAll_header__BSmhH a''),
      (''products.item.price'', ''div.ShopProductAll_prices__pWISY''),
      (''products.item.description'', ''div.ShopProductAll_description__ItGaW''),
      (''products.item.category'', ''div.ShopProductAll_chips__jqQLw div div''),
      (''products.item.image'', ''div.ShopProductAll_imageContainer__1TiEr img''),
      (''contact.website'',
       ''div[style*='border:1px solid #04b14e'] svg[width='26'][height='26']''),
      (''contact.line'', ''div[style*='border:1px solid #04b14e'] path[d*='M256 64C150']''),
      (''location.area'', ''h2 a[href*='/cannabis/']''),
      (''location.map'', ''div.layout_map__AFkLI'')]"

definition sel :: "string \<Rightarrow> string" where
  \<comment> \<open>\<open>self.selectors[key]\<close>, read only at keys of the table\<close>
  "sel k = (case map_of selectors k of None \<Rightarrow> [] | Some q \<Rightarrow> q)"

definition optional_text_fields :: "string list" where
  "optional_text_fields = [''reviews.count'', ''verified'', ''status.delivery'', ''special_offers'']"

definition get_text :: "raw_data \<Rightarrow> string \<Rightarrow> error + string" where
  \<comment> \<open>\<open>_get_text\<close>\<close>
  "get_text data field =
     bind_res
       (case data field of
          None \<Rightarrow> Inr (py_strip [])
        | Some (RStr s) \<Rightarrow> Inr (py_strip s)
        | Some (RNodes ns) \<Rightarrow> Inl AttributeError)
       (\<lambda>v. if v = [] \<and> field \<notin> set optional_text_fields
            then Inl (RequiredFieldMissing field) else Inr v)"

definition get_image_url :: "raw_data \<Rightarrow> string \<Rightarrow> error + string" where
  \<comment> \<open>\<open>_get_image_url\<close>\<close>
  "get_image_url data field =
     (if \<not> truthy (data field) then Inl (RequiredImageMissing field)
      else (case data field of
              Some (RNodes (n # ns)) \<Rightarrow> Inr (node_get_default n ''src'' [])
            | _ \<Rightarrow> Inr []))"

definition str_truthy :: "string option \<Rightarrow> bool" where
  \<comment> \<open>the truth value of \<open>node.get(attr)\<close>\<close>
  "str_truthy v = (case v of None \<Rightarrow> False | Some s \<Rightarrow> s \<noteq> [])"

definition get_gallery_urls :: "raw \<Rightarrow> error + string list" where
  \<comment> \<open>\<open>_get_gallery_urls\<close>\<close>
  "get_gallery_urls gallery_data =
     bind_res (nodes_of gallery_data)
       (\<lambda>ns. Inr (map (\<lambda>img. node_get_default img ''src'' [])
                     (filter (\<lambda>img. str_truthy (node_get img ''src'')) ns)))"

definition parse_rating :: "raw option \<Rightarrow> error + pyfloat" where
  \<comment> \<open>\<open>_parse_rating\<close>: IndexError and ValueError give 0.0\<close>
  "parse_rating rating_data =
     (if \<not> truthy rating_data then Inl RatingRequired
      else (case rating_data of
              None \<Rightarrow> Inl RatingRequired
            | Some r \<Rightarrow>
                (case first_node r of
                   Inl e \<Rightarrow> Inl e
                 | Inr None \<Rightarrow> Inl RatingRequired
                 | Inr (Some n) \<Rightarrow>
                     (case py_split (node_get_default n ''alt'' ''0'') of
                        [] \<Rightarrow> Inr (Fin 0)
                      | w # _ \<Rightarrow>
                          (case py_float w of None \<Rightarrow> Inr (Fin 0) | Some x \<Rightarrow> Inr x)))))"

definition parse_reviews_count :: "raw option \<Rightarrow> int option" where
  \<comment> \<open>\<open>_parse_reviews_count\<close>: ValueError and AttributeError give \<open>None\<close>\<close>
  "parse_reviews_count reviews_data =
     (if \<not> truthy reviews_data then None
      else (case reviews_data of
              Some (RNodes (n # ns)) \<Rightarrow> py_int_digits (filter py_isdigit (get_text_strip n))
            | _ \<Rightarrow> None))"

definition parse_special_offers :: "raw option \<Rightarrow> error + string list" where
  \<comment> \<open>\<open>_parse_special_offers\<close>\<close>
  "parse_special_offers offers_data =
     (if \<not> truthy offers_data then Inr []
      else (case offers_data of
              None \<Rightarrow> Inr []
            | Some r \<Rightarrow>
                bind_res (nodes_of r)
                  (\<lambda>ns. Inr (map get_text_strip
                                (filter (\<lambda>offer. get_text_strip offer \<noteq> []) ns)))))"

definition parse_price :: "node option \<Rightarrow> pyfloat option" where
  \<comment> \<open>\<open>_parse_price\<close>: ValueError and AttributeError give \<open>None\<close>\<close>
  "parse_price price_element =
     (case price_element of
        None \<Rightarrow> None
      | Some n \<Rightarrow> py_float (filter py_isdigit (get_text_strip n)))"

definition process_item :: "node \<Rightarrow> error + ProductItem" where
  \<comment> \<open>the body of the loop of \<open>_process_products\<close>: one \<open>ProductItem(...)\<close>\<close>
  "process_item item =
     (case select_one item (sel ''products.item.name'') of
        None \<Rightarrow> Inl AttributeError
      | Some nm \<Rightarrow>
          ProductItem_validate
            \<lparr>item_name = get_text_strip nm,
             item_price = parse_price (select_one item (sel ''products.item.price'')),
             item_description =
               (case select_one item (sel ''products.item.description'') of
                  None \<Rightarrow> None | Some d \<Rightarrow> Some (get_text_strip d)),
             item_category =
               Some (map get_text_strip (select item (sel ''products.item.category''))),
             item_image =
               (case select_one item (sel ''products.item.image'') of
                  None \<Rightarrow> None | Some im \<Rightarrow> node_get im ''src'')\<rparr>)"

fun process_items :: "ProductItem list \<Rightarrow> node list \<Rightarrow> error + ProductItem list" where
  \<comment> \<open>the loop of \<open>_process_products\<close>; the first argument is the list built so far\<close>
  "process_items acc [] = Inr acc"
| "process_items acc (item # rest) =
     (case process_item item of
        Inl e \<Rightarrow> Inl e
      | Inr product \<Rightarrow> process_items (acc @ [product]) rest)"

definition process_products :: "raw_data \<Rightarrow> error + Products" where
  \<comment> \<open>\<open>_process_products\<close>\<close>
  "process_products data =
     bind_res
       (case data ''products.categories'' of
          None \<Rightarrow> Inr []
        | Some r \<Rightarrow> bind_res (nodes_of r) (\<lambda>ns. Inr (map get_text_strip ns)))
       (\<lambda>cats.
          bind_res
            (case data ''products.items'' of
               None \<Rightarrow> Inr []
             | Some r \<Rightarrow> bind_res (nodes_of r) (process_items []))
            (\<lambda>its. Inr \<lparr>categories = Some cats, items = Some its\<rparr>))"

definition contact_entry :: "raw_data \<Rightarrow> string \<Rightarrow> error + string option" where
  \<comment> \<open>one entry of \<open>_process_contact\<close>: set when the field is in the data and not empty\<close>
  "contact_entry data field =
     (case data field of
        None \<Rightarrow> Inr None
      | Some r \<Rightarrow>
          (case first_node r of
             Inl e \<Rightarrow> Inl e
           | Inr None \<Rightarrow> Inr None
           | Inr (Some n) \<Rightarrow> Inr (Some (node_get_default n ''href'' []))))"

definition process_contact :: "raw_data \<Rightarrow> error + Contact option" where
  \<comment> \<open>\<open>_process_contact\<close>\<close>
  "process_contact data =
     bind_res (contact_entry data ''contact.website'')
       (\<lambda>w. bind_res (contact_entry data ''contact.line'')
          (\<lambda>l. Inr (if w = None \<and> l = None then None
                     else Some \<lparr>website = w, line = l\<rparr>)))"

definition coordinate :: "string option \<Rightarrow> error + pyfloat option" where
  \<comment> \<open>\<open>float(x) if x else None\<close>\<close>
  "coordinate x =
     (case x of
        None \<Rightarrow> Inr None
      | Some s \<Rightarrow>
          if s = [] then Inr None
          else (case py_float s of None \<Rightarrow> Inl (CouldNotConvert s) | Some v \<Rightarrow> Inr (Some v)))"

definition map_coordinates :: "node \<Rightarrow> error + Coordinates option" where
  \<comment> \<open>the \<open>coordinates\<close> argument of \<open>MapLocation(...)\<close> in \<open>_process_map\<close>\<close>
  "map_coordinates map_element =
     (if str_truthy (node_get map_element ''data-lat'') \<and>
         str_truthy (node_get map_element ''data-lng'')
      then bind_res (coordinate (node_get map_element ''data-lat''))
             (\<lambda>a. bind_res (coordinate (node_get map_element ''data-lng''))
                (\<lambda>b. Inr (Some \<lparr>lat = a, lng = b\<rparr>)))
      else Inr None)"

definition process_map :: "raw \<Rightarrow> error + MapLocation" where
  \<comment> \<open>\<open>_process_map\<close>\<close>
  "process_map map_data =
     (case first_node map_data of
        Inl e \<Rightarrow> Inl e
      | Inr None \<Rightarrow> Inl MapRequired
      | Inr (Some map_element) \<Rightarrow>
          bind_res (map_coordinates map_element)
            (\<lambda>c. Inr \<lparr>element = html map_element, coordinates = c\<rparr>))"

definition process_location :: "raw_data \<Rightarrow> error + Location" where
  \<comment> \<open>\<open>_process_location\<close>\<close>
  "process_location data =
     bind_res (get_text data ''location.area'')
       (\<lambda>a. bind_res
          (process_map (case data ''location.map'' of None \<Rightarrow> RNodes [] | Some r \<Rightarrow> r))
          (\<lambda>m. Inr \<lparr>area = Some a, map_loc = Some m\<rparr>))"

definition extract_data :: "raw_data \<Rightarrow> error + ShopData" where
  \<comment> \<open>the body of \<open>extract\<close> on the raw data; the values of the dictionary are computed
      in the order in which they are written\<close>
  "extract_data raw_data =
     bind_res (get_text raw_data ''name'') (\<lambda>v_name.
     bind_res (get_text raw_data ''description'') (\<lambda>v_description.
     bind_res (parse_rating (raw_data ''rating'')) (\<lambda>v_rating.
     bind_res (parse_special_offers (raw_data ''special_offers'')) (\<lambda>v_offers.
     bind_res (get_image_url raw_data ''images.main'') (\<lambda>v_main.
     bind_res (get_gallery_urls
                 (case raw_data ''images.gallery'' of None \<Rightarrow> RNodes [] | Some r \<Rightarrow> r))
       (\<lambda>v_gallery.
     bind_res (process_products raw_data) (\<lambda>v_products.
     bind_res (process_contact raw_data) (\<lambda>v_contact.
     bind_res (process_location raw_data) (\<lambda>v_location.
       ShopData_validate
         \<lparr>name = v_name,
          description = v_description,
          rating = v_rating,
          reviews_count = parse_reviews_count (raw_data ''reviews.count''),
          verified = Some (truthy (raw_data ''verified'')),
          delivery_service = Some (truthy (raw_data ''status.delivery'')),
          special_offers = Some v_offers,
          images = \<lparr>main = Some v_main, gallery = v_gallery\<rparr>,
          products = v_products,
          contact = v_contact,
          location = v_location,
          metadata = \<lparr>missing_optional_fields = [], validation_errors = []\<rparr>\<rparr>)))))))))"

definition base_extract :: "(string \<Rightarrow> string \<Rightarrow> raw option) \<Rightarrow> string \<Rightarrow> raw_data" where
  \<comment> \<open>\<open>super().extract(html)\<close> of the external base strategy, built on the selector table:
      the value of a field is what the query engine \<open>q\<close>, a parameter, finds in the
      document for the selector of the field\<close>
  "base_extract q doc field =
     (case map_of selectors field of None \<Rightarrow> None | Some s \<Rightarrow> q doc s)"

definition extract_doc :: "(string \<Rightarrow> string \<Rightarrow> raw option) \<Rightarrow> string \<Rightarrow> error + ShopData" where
  \<comment> \<open>the method \<open>extract\<close> on a document: an exception is logged and raised again\<close>
  "extract_doc q doc = extract_data (base_extract q doc)"

section \<open>The diagnostic harness of \<open>verify_selectors.py\<close>\<close>

record Sample =
  sample_text :: string
  sample_attributes :: "(string \<times> string option) list"
  sample_html :: "string option"

record 'v SelectorValidationResult =
  found :: bool
  count :: nat
  samples :: "Sample list"
  is_required :: bool
  result_errors :: "string list"
  result_warnings :: "string list"
  extracted_value :: "'v option"
  html_context :: "string option"

text \<open>
  An entry of \<open>SELECTORS_TO_TEST\<close>. The predicate \<open>validation\<close> and the function
  \<open>extract\<close> are lambdas of the table; a predicate that raises returns the message of
  its exception on the left.
\<close>

record 'v Config =
  selector :: string
  required :: bool
  validation :: "(node \<Rightarrow> string + bool) option"
  extract_value :: "(node option \<Rightarrow> 'v) option"
  error_msg :: "string option"
  warning_msg :: "string option"

definition get_text_safely :: "node \<Rightarrow> string" where
  \<comment> \<open>\<open>get_text_safely\<close> on a single element, which is never false\<close>
  "get_text_safely e = get_text_strip e"

fun find_str :: "string \<Rightarrow> string \<Rightarrow> nat option" where
  \<comment> \<open>\<open>s.find(pat)\<close>: the first position of \<open>pat\<close> in \<open>s\<close>; \<open>None\<close> is -1\<close>
  "find_str pat [] = (if pat = [] then Some 0 else None)"
| "find_str pat (c # cs) =
     (if take (length pat) (c # cs) = pat then Some 0
      else (case find_str pat cs of None \<Rightarrow> None | Some i \<Rightarrow> Some (Suc i)))"

definition get_html_context :: "node \<Rightarrow> node \<Rightarrow> string" where
  \<comment> \<open>\<open>get_html_context\<close>: 200 characters around the element in the document\<close>
  "get_html_context soup e =
     (let element_html = html e; full_html = html soup
      in case find_str element_html full_html of
           None \<Rightarrow> element_html
         | Some pos \<Rightarrow>
             (let start = pos - 200;
                  stop = min (length full_html) (pos + length element_html + 200);
                  context = take (stop - start) (drop start full_html);
                  context1 = (if start > 0 then ''...'' @ context else context)
              in if stop < length full_html then context1 @ ''...'' else context1))"

definition first_sample :: "node \<Rightarrow> Sample" where
  \<comment> \<open>an entry of the list given to the constructor of the result\<close>
  "first_sample e =
     \<lparr>sample_text = get_text_safely e,
      sample_attributes = map (\<lambda>(k, v). (k, Some v)) (attrs e),
      sample_html = None\<rparr>"

definition loop_sample :: "string \<Rightarrow> string \<Rightarrow> node \<Rightarrow> Sample" where
  \<comment> \<open>the sample built in the loop \<open>for elem in elements[:3]\<close>\<close>
  "loop_sample section field e =
     (if section = ''location'' \<and> field = ''coordinates'' then
        \<lparr>sample_text = ''lat: '' @ node_get_default e ''data-lat'' ''N/A'' @
                        '', lng: '' @ node_get_default e ''data-lng'' ''N/A'',
         sample_attributes = [(''lat'', node_get e ''data-lat''), (''lng'', node_get e ''data-lng'')],
         sample_html = Some (html e)\<rparr>
      else if section = ''location'' \<and> field = ''google_maps_link'' then
        \<lparr>sample_text = node_get_default e ''href'' [],
         sample_attributes = [(''href'', Some (node_get_default e ''href'' []))],
         sample_html = Some (html e)\<rparr>
      else
        \<lparr>sample_text = get_text_safely e,
         sample_attributes = map (\<lambda>(k, v). (k, Some v)) (attrs e),
         sample_html = Some (html e)\<rparr>)"

fun sample_loop ::
  "node \<Rightarrow> string \<Rightarrow> string \<Rightarrow> node list \<Rightarrow> 'v SelectorValidationResult \<Rightarrow>
   'v SelectorValidationResult" where
  \<comment> \<open>the loop \<open>for elem in elements[:3]\<close>: append the sample, set the context once\<close>
  "sample_loop soup section field [] r = r"
| "sample_loop soup section field (e # es) r =
     sample_loop soup section field es
       (r\<lparr>samples := samples r @ [loop_sample section field e],
          html_context :=
            (case html_context r of
               None \<Rightarrow> Some (get_html_context soup e)
             | Some c \<Rightarrow> if c = [] then Some (get_html_context soup e) else Some c)\<rparr>)"

definition run_validation ::
  "'v Config \<Rightarrow> node list \<Rightarrow> 'v SelectorValidationResult \<Rightarrow> 'v SelectorValidationResult" where
  \<comment> \<open>the last block of \<open>validate_selector\<close>: the predicate on the first element\<close>
  "run_validation config elements r =
     (case validation config of
        None \<Rightarrow> r
      | Some v \<Rightarrow>
          (case elements of
             [] \<Rightarrow> r
           | e # _ \<Rightarrow>
               (case v e of
                  Inl msg \<Rightarrow> r\<lparr>result_errors := result_errors r @ [''Validation error: '' @ msg]\<rparr>
                | Inr True \<Rightarrow> r
                | Inr False \<Rightarrow>
                    if required config
                    then r\<lparr>result_errors := result_errors r @
                           [case error_msg config of None \<Rightarrow> ''Validation failed'' | Some m \<Rightarrow> m]\<rparr>
                    else r\<lparr>result_warnings := result_warnings r @
                           [case warning_msg config of None \<Rightarrow> ''Validation failed'' | Some m \<Rightarrow> m]\<rparr>)))"

definition validate_selector ::
  "node \<Rightarrow> string \<Rightarrow> string \<Rightarrow> 'v Config \<Rightarrow> 'v SelectorValidationResult" where
  \<comment> \<open>\<open>validate_selector\<close>\<close>
  "validate_selector soup section field config =
     (let elements = select soup (selector config);
          result =
            \<lparr>found = (length elements > 0),
             count = length elements,
             samples = map first_sample (take 3 elements),
             is_required = required config,
             result_errors = [],
             result_warnings = [],
             extracted_value = None,
             html_context = None\<rparr>;
          result1 =
            (case extract_value config of
               None \<Rightarrow> result
             | Some f \<Rightarrow>
                 result\<lparr>extracted_value :=
                   Some (f (case elements of [] \<Rightarrow> None | e # _ \<Rightarrow> Some e))\<rparr>);
          result2 = sample_loop soup section field (take 3 elements) result1
      in run_validation config elements result2)"

definition config_name :: "unit Config" where
  \<comment> \<open>the entry \<open>basic.name\<close> of \<open>SELECTORS_TO_TEST\<close>\<close>
  "config_name =
     \<lparr>selector = ''h1'',
      required = True,
      validation = Some (\<lambda>x. Inr (get_text_safely x \<noteq> [])),
      extract_value = None,
      error_msg = Some ''Shop name must not be empty'',
      warning_msg = None\<rparr>"

section \<open>Predicates and reference definitions used in the statements\<close>

definition has_name :: "node \<Rightarrow> bool" where
  \<comment> \<open>the container has a name link whose text is not empty after trimming\<close>
  "has_name item =
     (case select_one item (sel ''products.item.name'') of
        None \<Rightarrow> False
      | Some nm \<Rightarrow> py_strip (get_text_strip nm) \<noteq> [])"

definition non_numeric_rating :: "node \<Rightarrow> bool" where
  \<comment> \<open>the \<open>alt\<close> text of the rating element has no first word, or one that is no float\<close>
  "non_numeric_rating n =
     (case py_split (node_get_default n ''alt'' ''0'') of
        [] \<Rightarrow> True
      | w # _ \<Rightarrow> py_float w = None)"




section \<open>Sample documents\<close>

definition text_node :: "string \<Rightarrow> node" where
  \<comment> \<open>an element with one text fragment and nothing else\<close>
  "text_node t = Node [t] [] [] []"

definition named_container :: "string \<Rightarrow> node" where
  \<comment> \<open>a product container whose only match is its name link\<close>
  "named_container t =
     Node [] [] [] [(''div.ShopProductAll_header__BSmhH a'', [text_node t])]"

definition nameless_container :: node where
  \<comment> \<open>a product container with a price and no name link\<close>
  "nameless_container =
     Node [] [] [] [(''div.ShopProductAll_prices__pWISY'', [text_node ''$300''])]"

definition blank_name_container :: node where
  \<comment> \<open>a product container whose name link holds white space only\<close>
  "blank_name_container = named_container ''  ''"

definition three_containers :: raw_data where
  \<comment> \<open>raw data with one category and three product containers, the second without a name\<close>
  "three_containers field =
     (if field = ''products.categories'' then Some (RNodes [text_node ''Flowers''])
      else if field = ''products.items''
      then Some (RNodes [named_container ''Blue Dream'', nameless_container,
                         named_container ''OG Kush''])
      else None)"

definition two_containers :: raw_data where
  \<comment> \<open>raw data with one category and two product containers, both named\<close>
  "two_containers field =
     (if field = ''products.categories'' then Some (RNodes [text_node ''Flowers''])
      else if field = ''products.items''
      then Some (RNodes [named_container ''Blue Dream'', named_container ''OG Kush''])
      else None)"

definition rating_img :: node where
  \<comment> \<open>the image that the rating selector \<open>img[alt='rating']\<close> matches\<close>
  "rating_img = Node [] [(''alt'', ''rating'')] ''<img alt=rating>'' []"

definition map_div :: "string \<Rightarrow> string \<Rightarrow> node" where
  \<comment> \<open>a map container with the two data attributes\<close>
  "map_div a b = Node [] [(''data-lat'', a), (''data-lng'', b)] ''<div>'' []"

definition priced_container :: node where
  \<comment> \<open>a product container with a name and a price\<close>
  "priced_container =
     Node [] [] []
       [(''div.ShopProductAll_header__BSmhH a'', [text_node ''Blue Dream'']),
        (''div.ShopProductAll_prices__pWISY'', [text_node ''$1200''])]"

definition shop_query :: "string \<Rightarrow> string \<Rightarrow> raw option" where
  \<comment> \<open>a query engine for one shop page: every required field is there, the reviews
      count, the special offers, the gallery and the contact links are not\<close>
  "shop_query doc s =
     (if s = ''h1'' then Some (RStr ''Green Shop'')
      else if s = ''div[style*='white-space:pre-wrap']'' then Some (RStr '' A shop '')
      else if s = ''div[style*='text-align:center'] img[alt='rating']''
      then Some (RNodes [rating_img])
      else if s = ''div[style*='color: rgb(74, 153, 233)']''
      then Some (RNodes [text_node ''Verified''])
      else if s = ''div.FeaturedImage_featuredImage__GA2Cw img[alt*='og.th']''
      then Some (RNodes [Node [] [(''src'', ''main.jpg'')] [] []])
      else if s = ''h2.ShopProductAll_productsHeader__10hBt''
      then Some (RNodes [text_node ''Flowers''])
      else if s = ''div.ShopProductAll_product__Cc_k7'' then Some (RNodes [priced_container])
      else if s = ''h2 a[href*='/cannabis/']'' then Some (RStr ''Bangkok'')
      else if s = ''div.layout_map__AFkLI'' then Some (RNodes [map_div ''13.5'' ''100.5''])
      else None)"

definition shop_record :: ShopData where
  \<comment> \<open>the record extracted from the page of \<open>shop_query\<close>\<close>
  "shop_record =
     \<lparr>name = ''Green Shop'',
      description = ''A shop'',
      rating = Fin 0,
      reviews_count = None,
      verified = Some True,
      delivery_service = Some True,
      special_offers = Some [],
      images = \<lparr>main = Some ''main.jpg'', gallery = []\<rparr>,
      products =
        \<lparr>categories = Some [''Flowers''],
         items = Some [\<lparr>item_name = ''Blue Dream'', item_price = Some (Fin 1200),
                        item_description = None, item_category = Some [],
                        item_image = None\<rparr>]\<rparr>,
      contact = None,
      location =
        \<lparr>area = Some ''Bangkok'',
         map_loc = Some \<lparr>element = ''<div>'',
                           coordinates = Some \<lparr>lat = Some (Fin (27 / 2)),
                                                 lng = Some (Fin (201 / 2))\<rparr>\<rparr>\<rparr>,
      metadata = \<lparr>missing_optional_fields = [], validation_errors = []\<rparr>\<rparr>"

definition empty_query :: "string \<Rightarrow> string \<Rightarrow> raw option" where
  \<comment> \<open>a page on which no selector matches anything\<close>
  "empty_query doc s = None"

definition no_image_query :: "string \<Rightarrow> string \<Rightarrow> raw option" where
  \<comment> \<open>the shop page without its main image\<close>
  "no_image_query doc s =
     (if s = ''div.FeaturedImage_featuredImage__GA2Cw img[alt*='og.th']'' then Some (RNodes [])
      else shop_query doc s)"

definition nameless_query :: "string \<Rightarrow> string \<Rightarrow> raw option" where
  \<comment> \<open>the shop page with a second product container that has no name link\<close>
  "nameless_query doc s =
     (if s = ''div.ShopProductAll_product__Cc_k7''
      then Some (RNodes [priced_container, nameless_container])
      else shop_query doc s)"

definition blank_nodes :: "node list" where
  \<comment> \<open>three matched elements: white space only, the text A, no text at all\<close>
  "blank_nodes = [text_node ''  '', text_node ''A'', Node [] [] [] []]"

definition blank_categories :: raw_data where
  \<comment> \<open>raw data whose category headers are \<open>blank_nodes\<close>\<close>
  "blank_categories field =
     (if field = ''products.categories'' then Some (RNodes blank_nodes) else None)"

definition chips_container :: node where
  \<comment> \<open>a named product container whose category chips are \<open>blank_nodes\<close>\<close>
  "chips_container =
     Node [] [] []
       [(''div.ShopProductAll_header__BSmhH a'', [text_node ''Blue Dream'']),
        (''div.ShopProductAll_chips__jqQLw div div'', blank_nodes)]"

definition three_h1 :: node where
  \<comment> \<open>a document in which the selector \<open>h1\<close> matches three elements\<close>
  "three_h1 =
     Node [] [] ''<h1>A</h1><h1>B</h1><h1>C</h1>''
       [(''h1'', [Node [''A''] [] ''<h1>A</h1>'' [], Node [''B''] [] ''<h1>B</h1>'' [],
                 Node [''C''] [] ''<h1>C</h1>'' []])]"

section \<open>Evaluation of the sample documents\<close>

lemma bind_res_simps:
  "bind_res (Inl e) f = Inl e"
  "bind_res (Inr x) f = f x"
  by (simp_all add: bind_res_def)

lemma bind_res_Inr_iff:
  "bind_res m f = Inr y \<longleftrightarrow> (\<exists>x. m = Inr x \<and> f x = Inr y)"
  by (cases m) (simp_all add: bind_res_def)

lemmas text_defs =
  py_float_def py_strip_def py_isspace_def py_isdigit_def parse_decimal_def parse_exponent_def
  nat_of_digits_def digit_val_def is_ascii_digit_def lower_char_def py_split_def
  py_int_digits_def int_max_str_digits_def

lemmas node_defs =
  get_text_strip_def node_get_def node_get_default_def select_def select_one_def
  text_node_def truthy_def str_truthy_def first_node_def nodes_of_def

lemma shop_query_fields:
  "base_extract shop_query d ''name'' = Some (RStr ''Green Shop'')"
  "base_extract shop_query d ''description'' = Some (RStr '' A shop '')"
  "base_extract shop_query d ''rating'' = Some (RNodes [rating_img])"
  "base_extract shop_query d ''reviews.count'' = None"
  "base_extract shop_query d ''verified'' = Some (RNodes [text_node ''Verified''])"
  "base_extract shop_query d ''status.delivery'' = Some (RNodes [text_node ''Verified''])"
  "base_extract shop_query d ''special_offers'' = None"
  "base_extract shop_query d ''images.main'' = Some (RNodes [Node [] [(''src'', ''main.jpg'')] [] []])"
  "base_extract shop_query d ''images.gallery'' = None"
  "base_extract shop_query d ''products.categories'' = Some (RNodes [text_node ''Flowers''])"
  "base_extract shop_query d ''products.items'' = Some (RNodes [priced_container])"
  "base_extract shop_query d ''contact.website'' = None"
  "base_extract shop_query d ''contact.line'' = None"
  "base_extract shop_query d ''location.area'' = Some (RStr ''Bangkok'')"
  "base_extract shop_query d ''location.map'' = Some (RNodes [map_div ''13.5'' ''100.5''])"
  by (simp_all add: base_extract_def selectors_def shop_query_def)

lemma shop_rating: "parse_rating (Some (RNodes [rating_img])) = Inr (Fin 0)"
  by (simp add: parse_rating_def rating_img_def node_defs text_defs)

lemma shop_item:
  "process_item priced_container =
     Inr \<lparr>item_name = ''Blue Dream'', item_price = Some (Fin 1200), item_description = None,
          item_category = Some [], item_image = None\<rparr>"
  by (simp add: process_item_def priced_container_def sel_def selectors_def parse_price_def
      ProductItem_validate_def node_defs text_defs)

lemma shop_map:
  "process_map (RNodes [map_div ''13.5'' ''100.5'']) =
     Inr \<lparr>element = ''<div>'',
          coordinates = Some \<lparr>lat = Some (Fin (27 / 2)), lng = Some (Fin (201 / 2))\<rparr>\<rparr>"
  by (simp add: process_map_def map_coordinates_def coordinate_def map_div_def bind_res_simps
      node_defs text_defs)

lemma shop_texts:
  "get_text (base_extract shop_query d) ''name'' = Inr ''Green Shop''"
  "get_text (base_extract shop_query d) ''description'' = Inr ''A shop''"
  "get_text (base_extract shop_query d) ''location.area'' = Inr ''Bangkok''"
  by (simp_all add: get_text_def shop_query_fields bind_res_simps optional_text_fields_def
      py_strip_def py_isspace_def)

lemma shop_products:
  "process_products (base_extract shop_query d) =
     Inr \<lparr>categories = Some [''Flowers''],
          items = Some [\<lparr>item_name = ''Blue Dream'', item_price = Some (Fin 1200),
                         item_description = None, item_category = Some [],
                         item_image = None\<rparr>]\<rparr>"
  by (simp add: process_products_def shop_query_fields bind_res_simps shop_item
      nodes_of_def get_text_strip_def text_node_def py_strip_def py_isspace_def)

lemma shop_valid: "ShopData_violations shop_record = []"
  by (simp add: ShopData_violations_def shop_record_def rating_ok_def float_ge_def float_le_def
      reviews_count_ok_def validate_images_def validate_products_def validate_location_def)

lemma extract_shop_query: "extract_doc shop_query d = Inr shop_record"
proof -
  have "extract_data (base_extract shop_query d) = ShopData_validate shop_record"
    by (simp add: extract_data_def shop_query_fields shop_texts shop_rating shop_products
        shop_map bind_res_simps parse_special_offers_def get_image_url_def get_gallery_urls_def
        process_contact_def contact_entry_def process_location_def parse_reviews_count_def
        shop_record_def node_defs)
  then show ?thesis
    by (simp add: extract_doc_def ShopData_validate_def shop_valid)
qed


section \<open>Validated records\<close>

text \<open>
  Claim C9. Every record that passes the validation of \<open>ShopData\<close> has a non-empty main
  image, non-empty lists of categories and of items, an area and a map, a rating in the
  closed interval from 0 to 5, and a reviews count that is not negative when present.
\<close>

theorem validated_record_invariants:
  assumes "ShopData_validate s = Inr r"
  shows "(\<exists>m. main (images r) = Some m \<and> m \<noteq> []) \<and>
         (\<exists>cs. categories (products r) = Some cs \<and> cs \<noteq> []) \<and>
         (\<exists>ps. items (products r) = Some ps \<and> ps \<noteq> []) \<and>
         (\<exists>a. area (location r) = Some a \<and> a \<noteq> []) \<and>
         (\<exists>m. map_loc (location r) = Some m) \<and>
         (\<exists>q. rating r = Fin q \<and> 0 \<le> q \<and> q \<le> 5) \<and>
         (\<forall>n. reviews_count r = Some n \<longrightarrow> 0 \<le> n)"
proof -
  from assms have eq: "r = s" and ok: "ShopData_violations s = []"
    by (auto simp: ShopData_validate_def split: if_splits)
  from ok have rt: "rating_ok (rating s)" and rc: "reviews_count_ok (reviews_count s)"
    and im: "validate_images (images s)" and pr: "validate_products (products s)"
    and lo: "validate_location (location s)"
    by (auto simp: ShopData_violations_def split: if_splits)
  from rt have "\<exists>q. rating s = Fin q \<and> 0 \<le> q \<and> q \<le> 5"
    by (cases "rating s") (simp_all add: rating_ok_def float_ge_def float_le_def)
  moreover from rc have "\<forall>n. reviews_count s = Some n \<longrightarrow> 0 \<le> n"
    by (simp add: reviews_count_ok_def split: option.splits)
  moreover from im have "\<exists>m. main (images s) = Some m \<and> m \<noteq> []"
    by (simp add: validate_images_def split: option.splits)
  moreover from pr have "\<exists>cs. categories (products s) = Some cs \<and> cs \<noteq> []"
    and "\<exists>ps. items (products s) = Some ps \<and> ps \<noteq> []"
    by (simp_all add: validate_products_def split: option.splits)
  moreover from lo have "\<exists>a. area (location s) = Some a \<and> a \<noteq> []"
    and "\<exists>m. map_loc (location s) = Some m"
    by (simp_all add: validate_location_def split: option.splits)
  ultimately show ?thesis using eq by simp
qed

theorem validated_record_invariants_witness:
  "ShopData_validate shop_record = Inr shop_record \<and>
   main (images shop_record) = Some ''main.jpg'' \<and>
   rating shop_record = Fin 0 \<and>
   (\<exists>cs. categories (products shop_record) = Some cs \<and> cs \<noteq> []) \<and>
   (\<exists>ps. items (products shop_record) = Some ps \<and> ps \<noteq> [])"
proof -
  have v: "ShopData_validate shop_record = Inr shop_record"
    by (simp add: ShopData_validate_def shop_valid)
  from validated_record_invariants [OF v] v show ?thesis
    by (simp add: shop_record_def)
qed

section \<open>Two fields of one selector\<close>

lemma same_selector:
  "map_of selectors ''verified'' = map_of selectors ''status.delivery''"
  by (simp add: selectors_def)

lemma extract_data_flags:
  assumes "extract_data d = Inr r"
  shows "verified r = Some (truthy (d ''verified''))"
    and "delivery_service r = Some (truthy (d ''status.delivery''))"
    and "missing_optional_fields (metadata r) = []"
    and "validation_errors (metadata r) = []"
    and "reviews_count r = parse_reviews_count (d ''reviews.count'')"
    and "ShopData_violations r = []"
  using assms
  by (auto simp: extract_data_def bind_res_Inr_iff ShopData_validate_def split: if_splits)

text \<open>
  Claim C10. The fields \<open>verified\<close> and \<open>delivery_service\<close> of every extracted record
  are equal: both are the truth value of the matches of one and the same selector.
\<close>

theorem verified_equals_delivery:
  assumes "extract_doc q doc = Inr r"
  shows "verified r = delivery_service r"
proof -
  have "base_extract q doc ''verified'' = base_extract q doc ''status.delivery''"
    by (simp add: base_extract_def same_selector)
  with assms show ?thesis
    by (simp add: extract_doc_def extract_data_flags(1,2))
qed

theorem verified_equals_delivery_witness:
  "extract_doc shop_query [] = Inr shop_record \<and>
   verified shop_record = Some True \<and> delivery_service shop_record = Some True"
  using verified_equals_delivery [OF extract_shop_query [of "[]"]] extract_shop_query [of "[]"]
  by (simp add: shop_record_def)


section \<open>Assembly of the product items\<close>

lemma process_item_has_name: "(\<exists>p. process_item c = Inr p) \<longleftrightarrow> has_name c"
  by (simp add: process_item_def has_name_def ProductItem_validate_def split: option.splits)

lemma process_item_error:
  "process_item c = Inl e \<Longrightarrow> e = AttributeError \<or> e = ValidationError [''name'']"
  by (auto simp: process_item_def ProductItem_validate_def split: option.splits if_splits)

lemma process_items_Inr:
  "process_items acc cs = Inr ps \<Longrightarrow> \<exists>qs. ps = acc @ qs \<and> map process_item cs = map Inr qs"
proof (induction cs arbitrary: acc)
  case Nil
  then show ?case by simp
next
  case (Cons c cs)
  from Cons.prems obtain p where p: "process_item c = Inr p"
    and rest: "process_items (acc @ [p]) cs = Inr ps"
    by (auto split: sum.splits)
  from Cons.IH [OF rest] obtain qs where "ps = (acc @ [p]) @ qs"
    and "map process_item cs = map Inr qs"
    by blast
  with p have "ps = acc @ (p # qs) \<and> map process_item (c # cs) = map Inr (p # qs)"
    by simp
  then show ?case by blast
qed

lemma process_items_ok:
  "map process_item cs = map Inr qs \<Longrightarrow> process_items acc cs = Inr (acc @ qs)"
proof (induction cs arbitrary: acc qs)
  case Nil
  then show ?case by simp
next
  case (Cons c cs)
  from Cons.prems obtain q qs' where qs: "qs = q # qs'" and q: "process_item c = Inr q"
    and rest: "map process_item cs = map Inr qs'"
    by (cases qs) auto
  from Cons.IH [OF rest, of "acc @ [q]"] q qs show ?case by simp
qed

lemma process_items_Inl:
  "process_items acc cs = Inl e \<Longrightarrow> \<exists>c \<in> set cs. process_item c = Inl e"
  by (induction cs arbitrary: acc) (auto split: sum.splits)

lemma all_named_items: "list_all has_name cs \<Longrightarrow> \<exists>qs. map process_item cs = map Inr qs"
proof (induction cs)
  case Nil
  then show ?case by simp
next
  case (Cons c cs)
  then obtain qs where qs: "map process_item cs = map Inr qs" by auto
  from Cons.prems have "has_name c" by simp
  then obtain q where "process_item c = Inr q"
    using process_item_has_name by blast
  with qs have "map process_item (c # cs) = map Inr (q # qs)" by simp
  then show ?case by blast
qed

lemma items_named: "map process_item cs = map Inr qs \<Longrightarrow> list_all has_name cs"
proof (induction cs arbitrary: qs)
  case Nil
  then show ?case by simp
next
  case (Cons c cs)
  from Cons.prems obtain q qs' where "process_item c = Inr q"
    and rest: "map process_item cs = map Inr qs'"
    by (cases qs) auto
  then have "has_name c" using process_item_has_name by blast
  with Cons.IH [OF rest] show ?case by simp
qed

lemma process_products_Inr:
  assumes "process_products data = Inr p" and "data ''products.items'' = Some (RNodes cs)"
  shows "\<exists>ps. items p = Some ps \<and> process_items [] cs = Inr ps"
  using assms
  by (auto simp: process_products_def bind_res_Inr_iff nodes_of_def split: option.splits)

text \<open>
  Claim C1, as amended. The assembly of the product items is all or nothing. Whenever
  \<open>_process_products\<close> returns, every container has a valid name and the items are the
  products of the containers, one for each, in document order. A container without a
  name link, or with a name that is empty after trimming, ends the whole assembly with an
  exception (AttributeError or the validation error of the name): no list is returned.
  When every container has a valid name and the categories are a list of nodes, the
  assembly returns.
\<close>

theorem items_all_or_nothing:
  assumes "data ''products.items'' = Some (RNodes cs)"
  shows "(\<forall>p. process_products data = Inr p \<longrightarrow>
            list_all has_name cs \<and>
            (\<exists>ps. items p = Some ps \<and> length ps = length cs \<and>
                  map process_item cs = map Inr ps)) \<and>
         (\<not> list_all has_name cs \<longrightarrow>
            (\<exists>e. process_products data = Inl e)) \<and>
         (\<forall>e. process_items [] cs = Inl e \<longrightarrow>
            e = AttributeError \<or> e = ValidationError [''name'']) \<and>
         (list_all has_name cs \<and> data ''products.categories'' = Some (RNodes hs) \<longrightarrow>
            (\<exists>ps. map process_item cs = map Inr ps \<and>
                  process_products data =
                    Inr \<lparr>categories = Some (map get_text_strip hs), items = Some ps\<rparr>))"
proof -
  have ret: "list_all has_name cs \<and>
             (\<exists>ps. items p = Some ps \<and> length ps = length cs \<and>
                   map process_item cs = map Inr ps)"
    if "process_products data = Inr p" for p
  proof -
    from process_products_Inr [OF that assms] obtain ps where ps: "items p = Some ps"
      and run: "process_items [] cs = Inr ps"
      by blast
    from process_items_Inr [OF run] have m: "map process_item cs = map Inr ps" by simp
    then have "length cs = length ps" by (rule map_eq_imp_length_eq)
    with ps m items_named [OF m] show ?thesis by auto
  qed
  have fail: "\<exists>e. process_products data = Inl e" if "\<not> list_all has_name cs"
  proof (cases "process_products data")
    case (Inl e)
    then show ?thesis by blast
  next
    case (Inr p)
    with ret that show ?thesis by blast
  qed
  have err: "e = AttributeError \<or> e = ValidationError [''name'']"
    if "process_items [] cs = Inl e" for e
    using process_items_Inl [OF that] process_item_error by blast
  have ok: "\<exists>ps. map process_item cs = map Inr ps \<and>
                 process_products data =
                   Inr \<lparr>categories = Some (map get_text_strip hs), items = Some ps\<rparr>"
    if "list_all has_name cs" and "data ''products.categories'' = Some (RNodes hs)"
  proof -
    from all_named_items [OF that(1)] obtain ps where m: "map process_item cs = map Inr ps"
      by blast
    from process_items_ok [OF m, of "[]"] that(2) assms
    have "process_products data =
            Inr \<lparr>categories = Some (map get_text_strip hs), items = Some ps\<rparr>"
      by (simp add: process_products_def bind_res_simps nodes_of_def)
    with m show ?thesis by blast
  qed
  from ret fail err ok show ?thesis by blast
qed

lemma named_container_item:
  "t \<noteq> [] \<Longrightarrow> py_strip t = t \<Longrightarrow>
   process_item (named_container t) =
     Inr \<lparr>item_name = t, item_price = None, item_description = None,
          item_category = Some [], item_image = None\<rparr>"
  by (simp add: process_item_def named_container_def sel_def selectors_def parse_price_def
      ProductItem_validate_def node_defs)

lemma strip_names:
  "py_strip ''Blue Dream'' = ''Blue Dream''"
  "py_strip ''OG Kush'' = ''OG Kush''"
  by (simp_all add: py_strip_def py_isspace_def)

lemma nameless_item: "process_item nameless_container = Inl AttributeError"
  by (simp add: process_item_def nameless_container_def sel_def selectors_def node_defs)

theorem items_all_or_nothing_witness:
  "two_containers ''products.items'' =
     Some (RNodes [named_container ''Blue Dream'', named_container ''OG Kush'']) \<and>
   list_all has_name [named_container ''Blue Dream'', named_container ''OG Kush''] \<and>
   (\<exists>p ps. process_products two_containers = Inr p \<and> items p = Some ps \<and>
           map item_name ps = [''Blue Dream'', ''OG Kush''])"
proof -
  let ?cs = "[named_container ''Blue Dream'', named_container ''OG Kush'']"
  have d: "two_containers ''products.items'' = Some (RNodes ?cs)"
    and h: "two_containers ''products.categories'' = Some (RNodes [text_node ''Flowers''])"
    by (simp_all add: two_containers_def)
  have its: "map process_item ?cs =
      map Inr [\<lparr>item_name = ''Blue Dream'', item_price = None, item_description = None,
                 item_category = Some [], item_image = None\<rparr>,
               \<lparr>item_name = ''OG Kush'', item_price = None, item_description = None,
                 item_category = Some [], item_image = None\<rparr>]"
    by (simp add: named_container_item strip_names)
  have n: "list_all has_name ?cs" by (rule items_named [OF its])
  from items_all_or_nothing
         [where data = two_containers and cs = ?cs and hs = "[text_node ''Flowers'']"]
       d n h its
  show ?thesis by auto
qed

text \<open>
  The claim as stated fails: of three containers of which the second has no name link,
  no list of two items is returned; the assembly ends with the exception of the second.
  A container whose name is white space only raises the validation error of the name.
\<close>

theorem isolation_counterexample:
  "three_containers ''products.items'' =
     Some (RNodes [named_container ''Blue Dream'', nameless_container,
                   named_container ''OG Kush'']) \<and>
   process_products three_containers = Inl AttributeError \<and>
   process_item blank_name_container = Inl (ValidationError [''name''])"
proof -
  have "process_item blank_name_container = Inl (ValidationError [''name''])"
    by (simp add: process_item_def blank_name_container_def named_container_def sel_def
        selectors_def ProductItem_validate_def node_defs py_strip_def py_isspace_def)
  then show ?thesis
    by (simp add: three_containers_def process_products_def bind_res_simps nodes_of_def
        named_container_item strip_names nameless_item)
qed

section \<open>The outcome of an extraction\<close>

lemma get_image_url_missing:
  "\<not> truthy (d field) \<Longrightarrow> get_image_url d field = Inl (RequiredImageMissing field)"
  by (simp add: get_image_url_def)

lemma extract_data_image:
  "extract_data d = Inr r \<Longrightarrow> \<exists>u. get_image_url d ''images.main'' = Inr u"
  by (auto simp: extract_data_def bind_res_Inr_iff)

text \<open>
  Claim C3, as amended. An extraction has one of two outcomes: a record that passed the
  validation, with an empty list of validation errors, or no record and one exception, the
  one of the first step that fails. A document whose main-image query matches nothing
  never yields a record; the exception is the one naming \<open>images.main\<close> when the name,
  the description, the rating and the special offers before it are read without error.
\<close>

theorem extraction_record_or_error:
  "(\<forall>r. extract_data d = Inr r \<longrightarrow>
       ShopData_violations r = [] \<and> validation_errors (metadata r) = []) \<and>
   (\<not> truthy (d ''images.main'') \<longrightarrow> (\<exists>e. extract_data d = Inl e)) \<and>
   (\<not> truthy (d ''images.main'') \<and> get_text d ''name'' = Inr a \<and>
    get_text d ''description'' = Inr b \<and> parse_rating (d ''rating'') = Inr c \<and>
    parse_special_offers (d ''special_offers'') = Inr f \<longrightarrow>
      extract_data d = Inl (RequiredImageMissing ''images.main''))"
proof -
  have valid: "ShopData_violations r = [] \<and> validation_errors (metadata r) = []"
    if "extract_data d = Inr r" for r
    using extract_data_flags(4,6) [OF that] by simp
  have none: "\<exists>e. extract_data d = Inl e" if "\<not> truthy (d ''images.main'')"
  proof (cases "extract_data d")
    case (Inl e)
    then show ?thesis by blast
  next
    case (Inr r)
    from extract_data_image [OF Inr] that show ?thesis
      by (simp add: get_image_url_missing)
  qed
  have named: "extract_data d = Inl (RequiredImageMissing ''images.main'')"
    if "\<not> truthy (d ''images.main'')" and "get_text d ''name'' = Inr a"
      and "get_text d ''description'' = Inr b" and "parse_rating (d ''rating'') = Inr c"
      and "parse_special_offers (d ''special_offers'') = Inr f"
    using that by (simp add: extract_data_def bind_res_simps get_image_url_missing)
  from valid none named show ?thesis by blast
qed

lemma no_image_fields:
  "base_extract no_image_query d ''name'' = Some (RStr ''Green Shop'')"
  "base_extract no_image_query d ''description'' = Some (RStr '' A shop '')"
  "base_extract no_image_query d ''rating'' = Some (RNodes [rating_img])"
  "base_extract no_image_query d ''special_offers'' = None"
  "base_extract no_image_query d ''images.main'' = Some (RNodes [])"
  by (simp_all add: base_extract_def selectors_def no_image_query_def shop_query_def)

theorem extraction_record_or_error_witness:
  "\<not> truthy (base_extract no_image_query [] ''images.main'') \<and>
   extract_doc no_image_query [] = Inl (RequiredImageMissing ''images.main'') \<and>
   extract_doc shop_query [] = Inr shop_record \<and>
   ShopData_violations shop_record = [] \<and>
   validation_errors (metadata shop_record) = []"
proof -
  let ?d = "base_extract no_image_query []"
  have t: "\<not> truthy (?d ''images.main'')"
    by (simp add: no_image_fields truthy_def)
  have a: "get_text ?d ''name'' = Inr ''Green Shop''"
    and b: "get_text ?d ''description'' = Inr ''A shop''"
    by (simp_all add: get_text_def no_image_fields bind_res_simps optional_text_fields_def
        py_strip_def py_isspace_def)
  have c: "parse_rating (?d ''rating'') = Inr (Fin 0)"
    by (simp add: no_image_fields shop_rating)
  have f: "parse_special_offers (?d ''special_offers'') = Inr []"
    by (simp add: no_image_fields parse_special_offers_def truthy_def)
  from extraction_record_or_error [of ?d "''Green Shop''" "''A shop''" "Fin 0" "[]"] t a b c f
  have "extract_doc no_image_query [] = Inl (RequiredImageMissing ''images.main'')"
    by (simp add: extract_doc_def)
  moreover
  from extraction_record_or_error [of "base_extract shop_query []"]
    extract_shop_query [of "[]"]
  have "ShopData_violations shop_record = [] \<and> validation_errors (metadata shop_record) = []"
    by (simp add: extract_doc_def)
  ultimately show ?thesis using t extract_shop_query [of "[]"] by simp
qed

lemma nameless_fields:
  "base_extract nameless_query d ''name'' = Some (RStr ''Green Shop'')"
  "base_extract nameless_query d ''description'' = Some (RStr '' A shop '')"
  "base_extract nameless_query d ''rating'' = Some (RNodes [rating_img])"
  "base_extract nameless_query d ''special_offers'' = None"
  "base_extract nameless_query d ''images.main'' =
     Some (RNodes [Node [] [(''src'', ''main.jpg'')] [] []])"
  "base_extract nameless_query d ''images.gallery'' = None"
  "base_extract nameless_query d ''products.categories'' = Some (RNodes [text_node ''Flowers''])"
  "base_extract nameless_query d ''products.items'' =
     Some (RNodes [priced_container, nameless_container])"
  by (simp_all add: base_extract_def selectors_def nameless_query_def shop_query_def)

lemma extract_nameless: "extract_doc nameless_query d = Inl AttributeError"
proof -
  have "process_products (base_extract nameless_query d) = Inl AttributeError"
    by (simp add: process_products_def nameless_fields bind_res_simps nodes_of_def shop_item
        nameless_item)
  then show ?thesis
    by (simp add: extract_doc_def extract_data_def nameless_fields bind_res_simps get_text_def
        optional_text_fields_def py_strip_def py_isspace_def shop_rating
        parse_special_offers_def get_image_url_def get_gallery_urls_def node_defs)
qed

text \<open>
  The claim as stated fails. On a page where no selector matches anything, the main-image
  query among them, the one exception names \<open>name\<close>, not \<open>images.main\<close>, and nothing
  else is listed; on the shop page with one container without a name link the exception
  is an AttributeError, which names no field.
\<close>

theorem extraction_counterexample:
  "base_extract empty_query [] ''images.main'' = None \<and>
   extract_doc empty_query [] = Inl (RequiredFieldMissing ''name'') \<and>
   extract_doc nameless_query [] = Inl AttributeError"
proof -
  have "extract_doc empty_query [] = Inl (RequiredFieldMissing ''name'')"
    by (simp add: extract_doc_def extract_data_def base_extract_def empty_query_def
        get_text_def bind_res_simps optional_text_fields_def py_strip_def split: option.splits)
  then show ?thesis
    by (simp add: extract_nameless base_extract_def empty_query_def split: option.splits)
qed

section \<open>Missing optional fields\<close>

text \<open>
  Claim C4 fails on the code. The shop page has no reviews count, no special offer and no
  contact link: the extraction succeeds, these optional fields are null or empty in the
  record, and the list \<open>missing_optional_fields\<close> of its metadata is empty all the same.
\<close>

theorem missing_optional_fields_stay_empty:
  "base_extract shop_query [] ''reviews.count'' = None \<and>
   extract_doc shop_query [] = Inr shop_record \<and>
   reviews_count shop_record = None \<and>
   special_offers shop_record = Some [] \<and>
   contact shop_record = None \<and>
   missing_optional_fields (metadata shop_record) = []"
  using extract_shop_query [of "[]"] shop_query_fields(4) [of "[]"]
  by (simp add: shop_record_def)


section \<open>The rating\<close>

lemma bind_res_Inl_iff:
  "bind_res m f = Inl e \<longleftrightarrow> m = Inl e \<or> (\<exists>x. m = Inr x \<and> f x = Inl e)"
  by (cases m) (simp_all add: bind_res_def)

lemma nodes_of_error: "nodes_of v = Inl e \<Longrightarrow> e = AttributeError"
  by (auto simp: nodes_of_def split: raw.splits list.splits)

lemma first_node_error: "first_node v = Inl e \<Longrightarrow> e = AttributeError"
  by (auto simp: first_node_def split: raw.splits list.splits)

lemma get_text_error:
  "get_text d f = Inl e \<Longrightarrow> e = AttributeError \<or> e = RequiredFieldMissing f"
  by (auto simp: get_text_def bind_res_Inl_iff split: option.splits raw.splits if_splits)

lemma parse_special_offers_error: "parse_special_offers v = Inl e \<Longrightarrow> e = AttributeError"
  by (auto simp: parse_special_offers_def bind_res_Inl_iff dest: nodes_of_error
      split: option.splits if_splits)

lemma get_image_url_error: "get_image_url d f = Inl e \<Longrightarrow> e = RequiredImageMissing f"
  by (auto simp: get_image_url_def split: option.splits raw.splits list.splits if_splits)

lemma get_gallery_urls_error: "get_gallery_urls v = Inl e \<Longrightarrow> e = AttributeError"
  by (auto simp: get_gallery_urls_def bind_res_Inl_iff dest: nodes_of_error)

lemma process_products_error:
  "process_products d = Inl e \<Longrightarrow> e = AttributeError \<or> e = ValidationError [''name'']"
  by (auto simp: process_products_def bind_res_Inl_iff
      dest!: nodes_of_error process_items_Inl process_item_error split: option.splits)

lemma contact_entry_error: "contact_entry d f = Inl e \<Longrightarrow> e = AttributeError"
  by (auto simp: contact_entry_def dest: first_node_error split: option.splits sum.splits)

lemma process_contact_error: "process_contact d = Inl e \<Longrightarrow> e = AttributeError"
  by (auto simp: process_contact_def bind_res_Inl_iff dest: contact_entry_error)

lemma coordinate_error: "coordinate x = Inl e \<Longrightarrow> \<exists>s. e = CouldNotConvert s"
  by (auto simp: coordinate_def split: option.splits if_splits)

lemma process_map_error:
  "process_map v = Inl e \<Longrightarrow> e = AttributeError \<or> e = MapRequired \<or> (\<exists>s. e = CouldNotConvert s)"
  by (auto simp: process_map_def map_coordinates_def bind_res_Inl_iff
      dest: first_node_error coordinate_error split: sum.splits option.splits if_splits)

lemma process_location_error:
  "process_location d = Inl e \<Longrightarrow>
   e = AttributeError \<or> e = MapRequired \<or> (\<exists>s. e = CouldNotConvert s) \<or>
   e = RequiredFieldMissing ''location.area''"
  by (auto simp: process_location_def bind_res_Inl_iff dest: get_text_error process_map_error)

lemma extract_data_error:
  assumes "extract_data d = Inl e" and "parse_rating (d ''rating'') = Inr v"
  shows "get_text d ''name'' = Inl e \<or> get_text d ''description'' = Inl e \<or>
         parse_special_offers (d ''special_offers'') = Inl e \<or>
         get_image_url d ''images.main'' = Inl e \<or>
         get_gallery_urls (case d ''images.gallery'' of None \<Rightarrow> RNodes [] | Some r \<Rightarrow> r) = Inl e \<or>
         process_products d = Inl e \<or> process_contact d = Inl e \<or>
         process_location d = Inl e \<or>
         (\<exists>s. rating s = v \<and> ShopData_validate s = Inl e)"
  using assms
  unfolding extract_data_def bind_res_Inl_iff
  by (elim disjE exE conjE; (simp; fail) | force)

lemma rating_ok_not_listed: "rating_ok (rating s) \<Longrightarrow> ''rating'' \<notin> set (ShopData_violations s)"
  by (simp add: ShopData_violations_def)

text \<open>
  Claim C5, as amended. When the rating element is there and the first word of its
  \<open>alt\<close> text is no float (or there is no word), the rating is 0.0 and no failure is
  recorded for it: a record that is returned has the rating 0.0, and an exception that
  ends the extraction is neither the one of a missing rating nor a validation error that
  lists the rating. Only a rating element that is absent raises.
\<close>

theorem non_numeric_rating_defaults_to_zero:
  assumes "d ''rating'' = Some (RNodes (n # ns))" and "non_numeric_rating n"
  shows "parse_rating (d ''rating'') = Inr (Fin 0) \<and>
         (\<forall>r. extract_data d = Inr r \<longrightarrow> rating r = Fin 0) \<and>
         extract_data d \<noteq> Inl RatingRequired \<and>
         (\<forall>fs. extract_data d = Inl (ValidationError fs) \<longrightarrow> ''rating'' \<notin> set fs) \<and>
         parse_rating None = Inl RatingRequired \<and>
         parse_rating (Some (RNodes [])) = Inl RatingRequired"
proof -
  from assms have zero: "parse_rating (d ''rating'') = Inr (Fin 0)"
    by (simp add: parse_rating_def non_numeric_rating_def truthy_def first_node_def
        split: list.splits)
  have rec: "rating r = Fin 0" if "extract_data d = Inr r" for r
    using that zero
    by (auto simp: extract_data_def bind_res_Inr_iff ShopData_validate_def split: if_splits)
  have ok0: "rating_ok (Fin 0)"
    by (simp add: rating_ok_def float_ge_def float_le_def)
  have err: "e \<noteq> RatingRequired \<and> (\<forall>fs. e = ValidationError fs \<longrightarrow> ''rating'' \<notin> set fs)"
    if e: "extract_data d = Inl e" for e
  proof -
    from extract_data_error [OF e zero]
    consider "get_text d ''name'' = Inl e" | "get_text d ''description'' = Inl e"
      | "parse_special_offers (d ''special_offers'') = Inl e"
      | "get_image_url d ''images.main'' = Inl e"
      | "get_gallery_urls (case d ''images.gallery'' of None \<Rightarrow> RNodes [] | Some r \<Rightarrow> r) = Inl e"
      | "process_products d = Inl e" | "process_contact d = Inl e"
      | "process_location d = Inl e"
      | s where "rating s = Fin 0" and "ShopData_validate s = Inl e"
      by blast
    then show ?thesis
    proof cases
      case 1
      then show ?thesis using get_text_error by blast
    next
      case 2
      then show ?thesis using get_text_error by blast
    next
      case 3
      then show ?thesis using parse_special_offers_error by blast
    next
      case 4
      then show ?thesis using get_image_url_error by blast
    next
      case 5
      then show ?thesis using get_gallery_urls_error by blast
    next
      case 6
      then show ?thesis using process_products_error by fastforce
    next
      case 7
      then show ?thesis using process_contact_error by blast
    next
      case 8
      then show ?thesis using process_location_error by blast
    next
      case 9
      from 9(2) have "e = ValidationError (ShopData_violations s)"
        by (simp add: ShopData_validate_def split: if_splits)
      moreover from 9(1) ok0 have "''rating'' \<notin> set (ShopData_violations s)"
        by (simp add: rating_ok_not_listed)
      ultimately show ?thesis by simp
    qed
  qed
  have absent: "parse_rating None = Inl RatingRequired"
    "parse_rating (Some (RNodes [])) = Inl RatingRequired"
    by (simp_all add: parse_rating_def truthy_def)
  from zero rec err absent show ?thesis by blast
qed

lemma rating_img_non_numeric: "non_numeric_rating rating_img"
  by (simp add: non_numeric_rating_def rating_img_def node_defs text_defs)

theorem non_numeric_rating_defaults_to_zero_witness:
  "base_extract shop_query [] ''rating'' = Some (RNodes [rating_img]) \<and>
   non_numeric_rating rating_img \<and>
   parse_rating (base_extract shop_query [] ''rating'') = Inr (Fin 0) \<and>
   extract_doc shop_query [] = Inr shop_record \<and>
   rating shop_record = Fin 0"
  using non_numeric_rating_defaults_to_zero
          [where d = "base_extract shop_query []" and n = rating_img and ns = "[]"]
        shop_query_fields(3) [of "[]"] rating_img_non_numeric extract_shop_query [of "[]"]
  by (simp add: extract_doc_def)

text \<open>
  The claim as stated fails: the image that the rating selector matches has the
  \<open>alt\<close> text \<open>rating\<close>, which is no number; its rating is 0.0 and the extraction of
  the page succeeds with that rating.
\<close>

theorem non_numeric_rating_counterexample:
  "node_get rating_img ''alt'' = Some ''rating'' \<and>
   py_float ''rating'' = None \<and>
   parse_rating (Some (RNodes [rating_img])) = Inr (Fin 0) \<and>
   (\<exists>r. extract_doc shop_query [] = Inr r \<and> rating r = Fin 0)"
proof -
  have "py_float ''rating'' = None" by (simp add: text_defs)
  moreover have "node_get rating_img ''alt'' = Some ''rating''"
    by (simp add: rating_img_def node_get_def)
  moreover have "rating shop_record = Fin 0" by (simp add: shop_record_def)
  ultimately show ?thesis using shop_rating extract_shop_query [of "[]"] by simp
qed

section \<open>The coordinates of the map\<close>

text \<open>
  Claim C2 fails on the code. A map container that has both attributes, of which the
  latitude is no number, does not give null coordinates: the conversion raises, and
  with it the whole extraction.
\<close>

theorem unparsable_latitude_raises:
  "py_float ''abc'' = None \<and>
   map_coordinates (map_div ''abc'' ''100.5'') = Inl (CouldNotConvert ''abc'') \<and>
   process_map (RNodes [map_div ''abc'' ''100.5'']) = Inl (CouldNotConvert ''abc'')"
proof -
  have f: "py_float ''abc'' = None" by (simp add: text_defs)
  then have "map_coordinates (map_div ''abc'' ''100.5'') = Inl (CouldNotConvert ''abc'')"
    by (simp add: map_coordinates_def coordinate_def map_div_def bind_res_simps node_get_def
        str_truthy_def)
  with f show ?thesis
    by (simp add: process_map_def first_node_def bind_res_simps)
qed

text \<open>
  What holds of the coordinates: a returned pair has both numbers, each the float of its
  attribute; the result is null exactly when an attribute is absent or empty; an
  exception is raised exactly when both are there and one of them is no float.
\<close>

theorem coordinates_both_or_none:
  "(case map_coordinates m of
      Inr (Some c) \<Rightarrow>
        (\<exists>s t a b. node_get m ''data-lat'' = Some s \<and> node_get m ''data-lng'' = Some t \<and>
                   py_float s = Some a \<and> py_float t = Some b \<and>
                   lat c = Some a \<and> lng c = Some b)
    | Inr None \<Rightarrow>
        \<not> (str_truthy (node_get m ''data-lat'') \<and> str_truthy (node_get m ''data-lng''))
    | Inl e \<Rightarrow>
        (\<exists>s t. node_get m ''data-lat'' = Some s \<and> node_get m ''data-lng'' = Some t \<and>
               s \<noteq> [] \<and> t \<noteq> [] \<and> (py_float s = None \<or> py_float t = None)))"
proof (cases "str_truthy (node_get m ''data-lat'') \<and> str_truthy (node_get m ''data-lng'')")
  case False
  then have "map_coordinates m = Inr None"
    by (auto simp: map_coordinates_def)
  with False show ?thesis by simp
next
  case True
  then obtain s t where s: "node_get m ''data-lat'' = Some s" "s \<noteq> []"
    and t: "node_get m ''data-lng'' = Some t" "t \<noteq> []"
    by (auto simp: str_truthy_def split: option.splits)
  show ?thesis
  proof (cases "py_float s")
    case None
    with True s t have "map_coordinates m = Inl (CouldNotConvert s)"
      by (simp add: map_coordinates_def coordinate_def bind_res_simps)
    with s t None show ?thesis by simp
  next
    case (Some a)
    show ?thesis
    proof (cases "py_float t")
      case None
      with True s t Some have "map_coordinates m = Inl (CouldNotConvert t)"
        by (simp add: map_coordinates_def coordinate_def bind_res_simps)
      with s t None show ?thesis by simp
    next
      case (Some b)
      with True s t \<open>py_float s = Some a\<close>
      have "map_coordinates m = Inr (Some \<lparr>lat = Some a, lng = Some b\<rparr>)"
        by (simp add: map_coordinates_def coordinate_def bind_res_simps)
      with s t Some \<open>py_float s = Some a\<close> show ?thesis by simp
    qed
  qed
qed

theorem coordinates_both_or_none_witness:
  "map_coordinates (map_div ''13.5'' ''100.5'') =
     Inr (Some \<lparr>lat = Some (Fin (27 / 2)), lng = Some (Fin (201 / 2))\<rparr>) \<and>
   map_coordinates (map_div [] ''100.5'') = Inr None"
proof -
  have "map_coordinates (map_div ''13.5'' ''100.5'') =
          Inr (Some \<lparr>lat = Some (Fin (27 / 2)), lng = Some (Fin (201 / 2))\<rparr>)"
    by (simp add: map_coordinates_def coordinate_def map_div_def bind_res_simps
        node_defs text_defs)
  moreover have "map_coordinates (map_div [] ''100.5'') = Inr None"
    using coordinates_both_or_none [of "map_div [] ''100.5''"]
    by (simp add: map_coordinates_def map_div_def node_defs)
  ultimately show ?thesis by simp
qed

section \<open>Lists of texts\<close>

lemma blank_texts:
  "map get_text_strip blank_nodes = [[], ''A'', []]"
  by (simp add: blank_nodes_def get_text_strip_def text_node_def py_strip_def py_isspace_def)

text \<open>
  Claim C7 fails on the code. Of three matched elements with the texts of white space,
  \<open>A\<close> and nothing, the special offers keep \<open>A\<close> alone, but the product categories
  and the categories of an item keep all three, two of them empty strings.
\<close>

theorem categories_keep_empty_texts:
  "parse_special_offers (Some (RNodes blank_nodes)) = Inr [''A''] \<and>
   process_products blank_categories =
     Inr \<lparr>categories = Some [[], ''A'', []], items = Some []\<rparr> \<and>
   process_item chips_container =
     Inr \<lparr>item_name = ''Blue Dream'', item_price = None, item_description = None,
          item_category = Some [[], ''A'', []], item_image = None\<rparr>"
proof -
  have a: "parse_special_offers (Some (RNodes blank_nodes)) = Inr [''A'']"
    by (simp add: parse_special_offers_def truthy_def nodes_of_def bind_res_simps
        blank_nodes_def get_text_strip_def text_node_def py_strip_def py_isspace_def)
  have b: "process_products blank_categories =
      Inr \<lparr>categories = Some [[], ''A'', []], items = Some []\<rparr>"
    by (simp add: process_products_def blank_categories_def nodes_of_def bind_res_simps
        blank_texts)
  have c: "process_item chips_container =
      Inr \<lparr>item_name = ''Blue Dream'', item_price = None, item_description = None,
           item_category = Some [[], ''A'', []], item_image = None\<rparr>"
    by (simp add: process_item_def chips_container_def sel_def selectors_def parse_price_def
        ProductItem_validate_def blank_texts strip_names select_def select_one_def
        get_text_strip_def text_node_def)
  from a b c show ?thesis by simp
qed

text \<open>
  What holds of the special offers: the list is the texts of the matched elements that are
  not empty, in document order, and holds no empty string.
\<close>

theorem special_offers_drop_empty:
  "parse_special_offers (Some (RNodes ns)) =
     Inr (filter (\<lambda>t. t \<noteq> []) (map get_text_strip ns)) \<and>
   (\<forall>ts. parse_special_offers v = Inr ts \<longrightarrow> [] \<notin> set ts)"
proof -
  have "map get_text_strip (filter (\<lambda>offer. get_text_strip offer \<noteq> []) ns) =
        filter (\<lambda>t. t \<noteq> []) (map get_text_strip ns)"
    by (induction ns) simp_all
  then have one: "parse_special_offers (Some (RNodes ns)) =
      Inr (filter (\<lambda>t. t \<noteq> []) (map get_text_strip ns))"
    by (cases ns) (simp_all add: parse_special_offers_def truthy_def nodes_of_def bind_res_simps)
  have two: "[] \<notin> set ts" if "parse_special_offers v = Inr ts" for ts
    using that
    by (auto simp: parse_special_offers_def bind_res_Inr_iff split: if_splits option.splits)
  from one two show ?thesis by blast
qed

theorem special_offers_drop_empty_witness:
  "parse_special_offers (Some (RNodes blank_nodes)) = Inr [''A''] \<and>
   [] \<notin> set [''A'']"
  using special_offers_drop_empty [of blank_nodes "Some (RNodes blank_nodes)"]
  by (simp add: blank_texts)

section \<open>The samples of the diagnostic harness\<close>

lemma sample_loop_samples:
  "samples (sample_loop soup section field es r) = samples r @ map (loop_sample section field) es"
  by (induction es arbitrary: r) simp_all

lemma sample_loop_count: "count (sample_loop soup section field es r) = count r"
  by (induction es arbitrary: r) simp_all

lemma run_validation_samples: "samples (run_validation config es r) = samples r"
  by (simp add: run_validation_def split: option.splits list.splits sum.splits bool.splits)

lemma run_validation_count: "count (run_validation config es r) = count r"
  by (simp add: run_validation_def split: option.splits list.splits sum.splits bool.splits)

text \<open>
  The samples of a result: those given to the constructor, one for each of the first
  three matches, followed by those the loop appends, again one for each of them.
\<close>

theorem samples_are_doubled:
  "samples (validate_selector soup section field config) =
     map first_sample (take 3 (select soup (selector config))) @
     map (loop_sample section field) (take 3 (select soup (selector config))) \<and>
   length (samples (validate_selector soup section field config)) =
     2 * min 3 (length (select soup (selector config)))"
proof -
  have "samples (validate_selector soup section field config) =
     map first_sample (take 3 (select soup (selector config))) @
     map (loop_sample section field) (take 3 (select soup (selector config)))"
    by (simp add: validate_selector_def Let_def run_validation_samples sample_loop_samples
        split: option.splits)
  then show ?thesis by (simp add: min.commute)
qed

theorem samples_are_doubled_witness:
  "samples (validate_selector three_h1 ''basic'' ''name'' config_name) =
     [\<lparr>sample_text = ''A'', sample_attributes = [], sample_html = None\<rparr>,
      \<lparr>sample_text = ''B'', sample_attributes = [], sample_html = None\<rparr>,
      \<lparr>sample_text = ''C'', sample_attributes = [], sample_html = None\<rparr>,
      \<lparr>sample_text = ''A'', sample_attributes = [], sample_html = Some ''<h1>A</h1>''\<rparr>,
      \<lparr>sample_text = ''B'', sample_attributes = [], sample_html = Some ''<h1>B</h1>''\<rparr>,
      \<lparr>sample_text = ''C'', sample_attributes = [], sample_html = Some ''<h1>C</h1>''\<rparr>]"
proof -
  have "select three_h1 (selector config_name) =
      [Node [''A''] [] ''<h1>A</h1>'' [], Node [''B''] [] ''<h1>B</h1>'' [],
       Node [''C''] [] ''<h1>C</h1>'' []]"
    by (simp add: select_def three_h1_def config_name_def)
  with samples_are_doubled [of three_h1 "''basic''" "''name''" config_name] show ?thesis
    by (simp add: first_sample_def loop_sample_def get_text_safely_def get_text_strip_def
        py_strip_def py_isspace_def)
qed

text \<open>
  Claim C8 fails on the code. For the field \<open>basic.name\<close> and a document in which the
  selector \<open>h1\<close> matches three elements, the result holds six samples.
\<close>

theorem six_samples_for_three_matches:
  "count (validate_selector three_h1 ''basic'' ''name'' config_name) = 3 \<and>
   length (samples (validate_selector three_h1 ''basic'' ''name'' config_name)) = 6"
proof -
  have q: "selector config_name = ''h1''" and x: "extract_value config_name = None"
    by (simp_all add: config_name_def)
  have s: "select three_h1 ''h1'' =
      [Node [''A''] [] ''<h1>A</h1>'' [], Node [''B''] [] ''<h1>B</h1>'' [],
       Node [''C''] [] ''<h1>C</h1>'' []]"
    by (simp add: select_def three_h1_def)
  have "count (validate_selector three_h1 ''basic'' ''name'' config_name) = 3"
    by (simp add: validate_selector_def Let_def q x s run_validation_count sample_loop_count)
  moreover have "length (samples (validate_selector three_h1 ''basic'' ''name'' config_name)) = 6"
    by (simp add: validate_selector_def Let_def q x s run_validation_samples sample_loop_samples)
  ultimately show ?thesis by simp
qed

section \<open>Numbers from text\<close>


lemma ascii_digit_isdigit: "is_ascii_digit c \<Longrightarrow> py_isdigit c"
  by (simp add: is_ascii_digit_def py_isdigit_def Let_def)














end
